theory Spec2Isabelle
  imports Main "HOL-Library.Word"
begin

section \<open>The Datadog SLO data source\<close>

text \<open>
  A shallow embedding of \<^verbatim>\<open>datadog/data_source_datadog_service_level_objective.go\<close>:
  the schema declared by \<^verbatim>\<open>dataSourceDatadogServiceLevelObjective\<close> and the read
  function \<^verbatim>\<open>dataSourceServiceLevelObjectiveRead\<close>. The Terraform plugin SDK
  (\<^verbatim>\<open>schema.ResourceData\<close>) and the Datadog API client are libraries outside the
  repository: their objects are modelled as data, and what they compute (the answer of the
  list call, whether the attribute store accepts a value) is a parameter of the model.
\<close>

subsection \<open>Values of the API client\<close>

text \<open>
  The read only copies numbers, so a \<^verbatim>\<open>float64\<close> is carried as its 64-bit IEEE-754
  pattern and an \<^verbatim>\<open>int64\<close> as a 64-bit word.
\<close>

type_synonym float64 = "64 word"
type_synonym int64 = "64 word"

text \<open>
  \<^verbatim>\<open>SLOThreshold\<close>: timeframe and target are required fields, the other three are
  pointers in the client (nil when the service sent no value).
\<close>

record SLOThreshold =
  th_target :: float64
  th_target_display :: "string option"
  th_timeframe :: string
  th_warning :: "float64 option"
  th_warning_display :: "string option"

definition GetTimeframe :: "SLOThreshold \<Rightarrow> string" where
  "GetTimeframe o' = th_timeframe o'"

definition GetTarget :: "SLOThreshold \<Rightarrow> float64" where
  "GetTarget o' = th_target o'"

text \<open>
  The \<^verbatim>\<open>Get...Ok\<close> accessors return the field's pointer and whether it is set.
\<close>

definition GetWarningOk :: "SLOThreshold \<Rightarrow> float64 option \<times> bool" where
  "GetWarningOk o' = (case th_warning o' of None \<Rightarrow> (None, False) | Some w \<Rightarrow> (Some w, True))"

definition GetTargetDisplayOk :: "SLOThreshold \<Rightarrow> string option \<times> bool" where
  "GetTargetDisplayOk o' =
     (case th_target_display o' of None \<Rightarrow> (None, False) | Some s \<Rightarrow> (Some s, True))"

definition GetWarningDisplayOk :: "SLOThreshold \<Rightarrow> string option \<times> bool" where
  "GetWarningDisplayOk o' =
     (case th_warning_display o' of None \<Rightarrow> (None, False) | Some s \<Rightarrow> (Some s, True))"

record ServiceLevelObjectiveQuery =
  q_denominator :: string
  q_numerator :: string

definition GetNumerator :: "ServiceLevelObjectiveQuery \<Rightarrow> string" where
  "GetNumerator o' = q_numerator o'"

definition GetDenominator :: "ServiceLevelObjectiveQuery \<Rightarrow> string" where
  "GetDenominator o' = q_denominator o'"

text \<open>
  \<^verbatim>\<open>SLOType\<close> is a string type of the client; the read compares it with the constant
  \<^verbatim>\<open>SLOTYPE_MONITOR\<close> and sends every other value to the default branch.
\<close>

type_synonym SLOType = string

definition SLOTYPE_MONITOR :: SLOType where
  "SLOTYPE_MONITOR = ''monitor''"

text \<open>
  \<^verbatim>\<open>ServiceLevelObjective\<close>, with the fields the read uses. Name, thresholds and type
  are required; the others are pointers, and their \<^verbatim>\<open>Get\<close> accessor returns the zero
  value of the type when the pointer is nil.
\<close>

record ServiceLevelObjective =
  slo_description :: "string option"
  slo_groups :: "string list option"
  slo_id :: "string option"
  slo_monitor_ids :: "int64 list option"
  slo_name :: string
  slo_query :: "ServiceLevelObjectiveQuery option"
  slo_tags :: "string list option"
  slo_thresholds :: "SLOThreshold list"
  slo_type :: SLOType

definition GetName :: "ServiceLevelObjective \<Rightarrow> string" where
  "GetName o' = slo_name o'"

definition GetDescription :: "ServiceLevelObjective \<Rightarrow> string" where
  "GetDescription o' = (case slo_description o' of None \<Rightarrow> [] | Some s \<Rightarrow> s)"

definition GetType :: "ServiceLevelObjective \<Rightarrow> SLOType" where
  "GetType o' = slo_type o'"

definition GetTags :: "ServiceLevelObjective \<Rightarrow> string list" where
  "GetTags o' = (case slo_tags o' of None \<Rightarrow> [] | Some ts \<Rightarrow> ts)"

definition GetThresholds :: "ServiceLevelObjective \<Rightarrow> SLOThreshold list" where
  "GetThresholds o' = slo_thresholds o'"

definition GetMonitorIds :: "ServiceLevelObjective \<Rightarrow> int64 list" where
  "GetMonitorIds o' = (case slo_monitor_ids o' of None \<Rightarrow> [] | Some ms \<Rightarrow> ms)"

definition GetGroups :: "ServiceLevelObjective \<Rightarrow> string list" where
  "GetGroups o' = (case slo_groups o' of None \<Rightarrow> [] | Some gs \<Rightarrow> gs)"

definition GetQuery :: "ServiceLevelObjective \<Rightarrow> ServiceLevelObjectiveQuery" where
  "GetQuery o' =
     (case slo_query o' of
        None \<Rightarrow> \<lparr>q_denominator = [], q_numerator = []\<rparr>
      | Some q \<Rightarrow> q)"

definition GetId :: "ServiceLevelObjective \<Rightarrow> string" where
  "GetId o' = (case slo_id o' of None \<Rightarrow> [] | Some i \<Rightarrow> i)"

record SLOListResponse =
  resp_data :: "ServiceLevelObjective list option"

definition GetData :: "SLOListResponse \<Rightarrow> ServiceLevelObjective list" where
  "GetData o' = (case resp_data o' of None \<Rightarrow> [] | Some ds \<Rightarrow> ds)"

subsection \<open>The list request\<close>

text \<open>
  \<^verbatim>\<open>ApiListSLOsRequest\<close>: each builder method stores its argument in one optional
  parameter of the request and returns the request.
\<close>

record ApiListSLOsRequest =
  req_query :: "string option"
  req_tagsQuery :: "string option"
  req_metricsQuery :: "string option"

definition ListSLOs :: ApiListSLOsRequest where
  "ListSLOs = \<lparr>req_query = None, req_tagsQuery = None, req_metricsQuery = None\<rparr>"

definition Query :: "string \<Rightarrow> ApiListSLOsRequest \<Rightarrow> ApiListSLOsRequest" where
  "Query v r = r\<lparr>req_query := Some v\<rparr>"

definition TagsQuery :: "string \<Rightarrow> ApiListSLOsRequest \<Rightarrow> ApiListSLOsRequest" where
  "TagsQuery v r = r\<lparr>req_tagsQuery := Some v\<rparr>"

definition MetricsQuery :: "string \<Rightarrow> ApiListSLOsRequest \<Rightarrow> ApiListSLOsRequest" where
  "MetricsQuery v r = r\<lparr>req_metricsQuery := Some v\<rparr>"

subsection \<open>Errors\<close>

text \<open>
  The error of the API client is identified by its diagnostic message. The read returns
  three kinds of error: the translation of a client error, a message built by
  \<^verbatim>\<open>fmt.Errorf\<close>, and the error of a rejected \<^verbatim>\<open>d.Set\<close>.
\<close>

type_synonym client_error = string

datatype error =
    TranslatedError string client_error
  | Errorf string
  | SetError string

text \<open>
  Modelled from the spec: \<^verbatim>\<open>utils.TranslateClientError\<close> lives in
  \<^verbatim>\<open>datadog/internal/utils\<close>, which is not among the sources. The spec describes its
  result as a translated error that preserves the underlying service's diagnostic message,
  tagged with the context string.
\<close>

definition TranslateClientError :: "client_error \<Rightarrow> string \<Rightarrow> error" where
  "TranslateClientError err msg = TranslatedError msg err"

text \<open>
  The provider configuration passed as \<^verbatim>\<open>meta\<close>: of the client only
  \<^verbatim>\<open>req.Execute()\<close> is used, which answers a request with an error or a response.
\<close>

record ProviderConfiguration =
  Execute :: "ApiListSLOsRequest \<Rightarrow> client_error + SLOListResponse"

subsection \<open>The attribute store\<close>

text \<open>
  The values the read hands to \<^verbatim>\<open>d.Set\<close> as \<^verbatim>\<open>interface{}\<close>. An entry of a
  \<^verbatim>\<open>map[string]interface{}\<close> is a string, a float, or the pointer returned by a
  \<^verbatim>\<open>Get...Ok\<close> accessor.
\<close>

datatype iface =
    IString string
  | IFloat64 float64
  | IStringPtr "string option"
  | IFloat64Ptr "float64 option"

datatype val =
    VString string
  | VStrings "string list"
  | VInt64s "int64 list"
  | VMaps "(string \<rightharpoonup> iface) list"

text \<open>
  \<^verbatim>\<open>schema.ResourceData\<close>: \<open>config\<close> holds the keys that \<^verbatim>\<open>GetOk\<close> reports as
  set, with their values; \<open>setWriter\<close> is the store's check of a written value against
  the schema (the message of the error, or \<open>None\<close> when the value is accepted);
  \<open>attrs\<close> holds the value last accepted for each key; \<open>ident\<close> is the identifier
  written by \<^verbatim>\<open>SetId\<close>.
\<close>

record ResourceData =
  config :: "string \<rightharpoonup> string"
  setWriter :: "string \<Rightarrow> val \<Rightarrow> string option"
  attrs :: "string \<rightharpoonup> val"
  ident :: string

text \<open>
  \<^verbatim>\<open>d.GetOk\<close> returns the value of a key and whether it is set; \<^verbatim>\<open>d.Set\<close> returns the
  error of the store and leaves the store as it was when the value is rejected, and stores
  the value otherwise; \<^verbatim>\<open>d.SetId\<close> writes the identifier.
\<close>

definition d_GetOk :: "ResourceData \<Rightarrow> string \<Rightarrow> string \<times> bool" where
  "d_GetOk d k = (case config d k of None \<Rightarrow> ([], False) | Some v \<Rightarrow> (v, True))"

definition d_Set :: "ResourceData \<Rightarrow> string \<Rightarrow> val \<Rightarrow> error option \<times> ResourceData" where
  "d_Set d k v =
     (case setWriter d k v of
        Some msg \<Rightarrow> (Some (SetError msg), d)
      | None \<Rightarrow> (None, d\<lparr>attrs := (attrs d)(k \<mapsto> v)\<rparr>))"

definition d_SetId :: "ResourceData \<Rightarrow> string \<Rightarrow> ResourceData" where
  "d_SetId d v = d\<lparr>ident := v\<rparr>"

text \<open>
  \<^verbatim>\<open>if err := ...; err != nil { return err }\<close>: an error ends the read with the store
  as it is, otherwise the read goes on from the new store.
\<close>

definition check ::
  "error option \<times> ResourceData \<Rightarrow> (ResourceData \<Rightarrow> error option \<times> ResourceData)
     \<Rightarrow> error option \<times> ResourceData" where
  "check r k = (case r of (Some err, d) \<Rightarrow> (Some err, d) | (None, d) \<Rightarrow> k d)"

subsection \<open>The schema\<close>

text \<open>
  \<^verbatim>\<open>schema.Schema\<close> with the fields the declaration uses, at Go's zero value where the
  declaration leaves a field out. The \<^verbatim>\<open>Description\<close> texts are documentation only
  and are left out.
\<close>

datatype ValueType = TypeBool | TypeInt | TypeFloat | TypeString | TypeList | TypeSet

datatype Schema =
  Schema (Type: ValueType) (Optional: bool) (Required: bool) (Computed: bool)
    (Removed: string) (MaxItems: nat) (MinItems: nat) (Elem: Elem)
and Elem =
    NoElem
  | ElemSchema Schema
  | ElemResource "(string \<times> Schema) list"

definition dataSourceDatadogServiceLevelObjective :: "(string \<times> Schema) list" where
  "dataSourceDatadogServiceLevelObjective =
    [(''name_query'', Schema TypeString True False False [] 0 0 NoElem),
     (''tags_filter'', Schema TypeString True False False [] 0 0
        (ElemSchema (Schema TypeString False False False [] 0 0 NoElem))),
     (''metrics_query'', Schema TypeString True False False [] 0 0
        (ElemSchema (Schema TypeString False False False [] 0 0 NoElem))),
     (''name'', Schema TypeString False False True [] 0 0 NoElem),
     (''description'', Schema TypeString False False True [] 0 0 NoElem),
     (''tags'', Schema TypeSet False False True [] 0 0
        (ElemSchema (Schema TypeString False False False [] 0 0 NoElem))),
     (''thresholds'', Schema TypeList False False True [] 0 0
        (ElemResource
          [(''timeframe'', Schema TypeString False False True [] 0 0 NoElem),
           (''target'', Schema TypeFloat False False True [] 0 0 NoElem),
           (''target_display'', Schema TypeString False False True [] 0 0 NoElem),
           (''warning'', Schema TypeFloat False False True [] 0 0 NoElem),
           (''warning_display'', Schema TypeString False False True [] 0 0 NoElem)])),
     (''type'', Schema TypeString False False True [] 0 0 NoElem),
     (''force_delete'', Schema TypeBool False False True [] 0 0 NoElem),
     (''query'', Schema TypeList False False True [] 1 0
        (ElemResource
          [(''numerator'', Schema TypeString False False True [] 0 0 NoElem),
           (''denominator'', Schema TypeString False False True [] 0 0 NoElem)])),
     (''monitor_ids'', Schema TypeSet False False True [] 0 0
        (ElemSchema (Schema TypeInt False False False [] 0 1 NoElem))),
     (''monitor_search'', Schema TypeString False False True ''Feature is not yet supported'' 0 0 NoElem),
     (''groups'', Schema TypeSet False False True [] 0 0
        (ElemSchema (Schema TypeString False False False [] 0 1 NoElem))),
     (''validate'', Schema TypeBool False False True [] 0 0 NoElem)]"

text \<open>The keys of the schema that are declared \<^verbatim>\<open>Computed: true\<close>.\<close>

definition computed_fields :: "string list" where
  "computed_fields =
     map fst (filter (\<lambda>(k, s). Computed s) dataSourceDatadogServiceLevelObjective)"

subsection \<open>The read function\<close>

text \<open>Lines 148 to 157: the request, with each filter that \<^verbatim>\<open>GetOk\<close> reports.\<close>

definition build_request :: "ResourceData \<Rightarrow> ApiListSLOsRequest" where
  "build_request d =
     (let req = ListSLOs;
          req = (case d_GetOk d ''name_query'' of (v, ok) \<Rightarrow> if ok then Query v req else req);
          req = (case d_GetOk d ''tags_filter'' of (v, ok) \<Rightarrow> if ok then TagsQuery v req else req);
          req = (case d_GetOk d ''metrics_query'' of (v, ok) \<Rightarrow> if ok then MetricsQuery v req else req)
      in req)"

text \<open>Lines 176 to 188: the map built for one threshold.\<close>

definition threshold_map :: "SLOThreshold \<Rightarrow> (string \<rightharpoonup> iface)" where
  "threshold_map threshold =
     (let t = [''timeframe'' \<mapsto> IString (GetTimeframe threshold),
               ''target'' \<mapsto> IFloat64 (GetTarget threshold)];
          t = (case GetWarningOk threshold of
                 (warning, ok) \<Rightarrow> if ok then t(''warning'' \<mapsto> IFloat64Ptr warning) else t);
          t = (case GetTargetDisplayOk threshold of
                 (targetDisplay, ok) \<Rightarrow>
                   if ok then t(''target_display'' \<mapsto> IStringPtr targetDisplay) else t);
          t = (case GetWarningDisplayOk threshold of
                 (warningDisplay, ok) \<Rightarrow>
                   if ok then t(''warning_display'' \<mapsto> IStringPtr warningDisplay) else t)
      in t)"

text \<open>Lines 174 to 190: the loop appends one map for each threshold.\<close>

fun thresholds_loop ::
  "(string \<rightharpoonup> iface) list \<Rightarrow> SLOThreshold list \<Rightarrow> (string \<rightharpoonup> iface) list" where
  "thresholds_loop thresholds [] = thresholds"
| "thresholds_loop thresholds (threshold # rest) =
     thresholds_loop (thresholds @ [threshold_map threshold]) rest"

text \<open>Lines 192 to 195: the loop copies the tags.\<close>

fun tags_loop :: "string list \<Rightarrow> string list \<Rightarrow> string list" where
  "tags_loop tags [] = tags"
| "tags_loop tags (s # rest) = tags_loop (tags @ [s]) rest"

text \<open>Lines 225 to 228: the map of the metric query.\<close>

definition query_map :: "ServiceLevelObjective \<Rightarrow> (string \<rightharpoonup> iface)" where
  "query_map slo =
     (let query = Map.empty;
          q = GetQuery slo;
          query = query(''numerator'' \<mapsto> IString (GetNumerator q));
          query = query(''denominator'' \<mapsto> IString (GetDenominator q))
      in query)"

text \<open>Lines 197 to 235: the assignments, each one checked, and the identifier last.\<close>

definition set_outputs ::
  "ServiceLevelObjective \<Rightarrow> (string \<rightharpoonup> iface) list \<Rightarrow> string list \<Rightarrow> ResourceData
     \<Rightarrow> error option \<times> ResourceData" where
  "set_outputs slo thresholds tags d =
     check (d_Set d ''name'' (VString (GetName slo))) (\<lambda>d.
     check (d_Set d ''description'' (VString (GetDescription slo))) (\<lambda>d.
     check (d_Set d ''type'' (VString (GetType slo))) (\<lambda>d.
     check (d_Set d ''tags'' (VStrings tags)) (\<lambda>d.
     check (d_Set d ''thresholds'' (VMaps thresholds)) (\<lambda>d.
     check
       (if GetType slo = SLOTYPE_MONITOR then
          check
            (if length (GetMonitorIds slo) > 0
             then d_Set d ''monitor_ids'' (VInt64s (GetMonitorIds slo))
             else (None, d)) (\<lambda>d.
          d_Set d ''groups'' (VStrings (GetGroups slo)))
        else d_Set d ''query'' (VMaps [query_map slo])) (\<lambda>d.
     (None, d_SetId d (GetId slo))))))))"

definition dataSourceServiceLevelObjectiveRead ::
  "ResourceData \<Rightarrow> ProviderConfiguration \<Rightarrow> error option \<times> ResourceData" where
  "dataSourceServiceLevelObjectiveRead d meta =
     (let req = build_request d in
      case Execute meta req of
        Inl err \<Rightarrow> (Some (TranslateClientError err ''error querying monitors''), d)
      | Inr sloResponse \<Rightarrow>
          (let slos = GetData sloResponse in
           if length slos > 1 then
             (Some (Errorf ''your query returned more than one result, please try a more specific search criteria''), d)
           else if length slos = 0 then
             (Some (Errorf ''your query returned no result, please try a less specific search criteria''), d)
           else
             (let slo = slos ! 0;
                  thresholds = thresholds_loop [] (GetThresholds slo);
                  tags = tags_loop [] (GetTags slo)
              in set_outputs slo thresholds tags d)))"

subsection \<open>The assignments as a list\<close>

text \<open>
  The assignments of lines 197 to 232, in the order in which the read attempts them, as a
  list of keys and values: the theorems below state which of them reach the store.
\<close>

definition assignments :: "ServiceLevelObjective \<Rightarrow> (string \<times> val) list" where
  "assignments slo =
     [(''name'', VString (GetName slo)),
      (''description'', VString (GetDescription slo)),
      (''type'', VString (GetType slo)),
      (''tags'', VStrings (tags_loop [] (GetTags slo))),
      (''thresholds'', VMaps (thresholds_loop [] (GetThresholds slo)))] @
     (if GetType slo = SLOTYPE_MONITOR then
        (if length (GetMonitorIds slo) > 0
         then [(''monitor_ids'', VInt64s (GetMonitorIds slo))] else []) @
        [(''groups'', VStrings (GetGroups slo))]
      else [(''query'', VMaps [query_map slo])])"

text \<open>\<open>set_all\<close> runs a list of assignments and stops at the first one that is rejected.\<close>

fun set_all :: "(string \<times> val) list \<Rightarrow> ResourceData \<Rightarrow> error option \<times> ResourceData" where
  "set_all [] d = (None, d)"
| "set_all ((k, v) # rest) d = check (d_Set d k v) (set_all rest)"

text \<open>\<open>store_all\<close> writes a list of assignments into the attributes, with no check.\<close>

fun store_all :: "(string \<times> val) list \<Rightarrow> (string \<rightharpoonup> val) \<Rightarrow> (string \<rightharpoonup> val)" where
  "store_all [] m = m"
| "store_all ((k, v) # rest) m = store_all rest (m(k \<mapsto> v))"

text \<open>
  \<open>accepted\<close> is the longest prefix of assignments that the store accepts, and
  \<open>first_rejected\<close> the message for the assignment after it, if there is one.
\<close>

fun accepted :: "(string \<Rightarrow> val \<Rightarrow> string option) \<Rightarrow> (string \<times> val) list \<Rightarrow> (string \<times> val) list" where
  "accepted w [] = []"
| "accepted w ((k, v) # rest) = (case w k v of None \<Rightarrow> (k, v) # accepted w rest | Some msg \<Rightarrow> [])"

fun first_rejected :: "(string \<Rightarrow> val \<Rightarrow> string option) \<Rightarrow> (string \<times> val) list \<Rightarrow> string option" where
  "first_rejected w [] = None"
| "first_rejected w ((k, v) # rest) =
     (case w k v of None \<Rightarrow> first_rejected w rest | Some msg \<Rightarrow> Some msg)"

subsection \<open>Example inputs\<close>

text \<open>
  The example of the specification: the filter \<^verbatim>\<open>name_query = "checkout latency"\<close>, a
  store that accepts every value, and a monitor SLO with monitors 123 and 456, the group
  \<^verbatim>\<open>env:prod\<close> and one threshold of 99.9 (\<^verbatim>\<open>0x4058F9999999999A\<close>) over seven days.
  The metric SLO has a threshold whose warning is present and zero.
\<close>

definition example_store :: ResourceData where
  "example_store =
     \<lparr>config = [''name_query'' \<mapsto> ''checkout latency''],
      setWriter = (\<lambda>k v. None),
      attrs = Map.empty,
      ident = []\<rparr>"

definition example_threshold :: SLOThreshold where
  "example_threshold =
     \<lparr>th_target = 0x4058F9999999999A, th_target_display = None, th_timeframe = ''7d'',
      th_warning = None, th_warning_display = None\<rparr>"

definition example_monitor_slo :: ServiceLevelObjective where
  "example_monitor_slo =
     \<lparr>slo_description = Some ''latency of the checkout'',
      slo_groups = Some [''env:prod''],
      slo_id = Some ''slo-1'',
      slo_monitor_ids = Some [123, 456],
      slo_name = ''checkout latency'',
      slo_query = None,
      slo_tags = Some [''team:shop''],
      slo_thresholds = [example_threshold],
      slo_type = ''monitor''\<rparr>"

definition example_metric_slo :: ServiceLevelObjective where
  "example_metric_slo =
     \<lparr>slo_description = None,
      slo_groups = None,
      slo_id = Some ''slo-2'',
      slo_monitor_ids = None,
      slo_name = ''checkout errors'',
      slo_query = Some \<lparr>q_denominator = ''sum:requests.total'', q_numerator = ''sum:requests.ok''\<rparr>,
      slo_tags = None,
      slo_thresholds =
        [\<lparr>th_target = 0x4058C00000000000, th_target_display = Some ''99.00'',
          th_timeframe = ''30d'', th_warning = Some 0, th_warning_display = None\<rparr>,
         example_threshold],
      slo_type = ''metric''\<rparr>"

definition example_client :: "ServiceLevelObjective list \<Rightarrow> ProviderConfiguration" where
  "example_client slos = \<lparr>Execute = (\<lambda>req. Inr \<lparr>resp_data = Some slos\<rparr>)\<rparr>"

definition failing_client :: ProviderConfiguration where
  "failing_client = \<lparr>Execute = (\<lambda>req. Inl ''403 Forbidden'')\<rparr>"

section \<open>Properties\<close>

subsection \<open>The loops and the sequence of assignments\<close>

lemma thresholds_loop_append:
  "thresholds_loop acc ths = acc @ map threshold_map ths"
  by (induction ths arbitrary: acc) simp_all

lemma tags_loop_append: "tags_loop acc ts = acc @ ts"
  by (induction ts arbitrary: acc) simp_all

lemma check_None [simp]: "check (None, d) k = k d"
  by (simp add: check_def)

lemma check_Some [simp]: "check (Some e, d) k = (Some e, d)"
  by (simp add: check_def)

lemma check_assoc: "check (check r f) g = check r (\<lambda>d. check (f d) g)"
  by (cases r) (auto simp: check_def split: option.splits)

lemma set_all_append:
  "set_all (xs @ ys) d = check (set_all xs d) (set_all ys)"
proof (induction xs arbitrary: d)
  case Nil
  show ?case by simp
next
  case (Cons a xs)
  obtain k v where a: "a = (k, v)" by (cases a)
  show ?case
    by (cases "setWriter d k v") (simp_all add: a d_Set_def Cons.IH)
qed

lemma set_outputs_set_all:
  "set_outputs slo (thresholds_loop [] (GetThresholds slo)) (tags_loop [] (GetTags slo)) d =
     check (set_all (assignments slo) d) (\<lambda>d. (None, d_SetId d (GetId slo)))"
  unfolding set_outputs_def assignments_def
  by (simp add: check_assoc set_all_append)

lemma set_all_snd:
  "snd (set_all as d) = d\<lparr>attrs := store_all (accepted (setWriter d) as) (attrs d)\<rparr>"
proof (induction as arbitrary: d)
  case Nil
  show ?case by simp
next
  case (Cons a as)
  obtain k v where a: "a = (k, v)" by (cases a)
  show ?case
  proof (cases "setWriter d k v")
    case None
    let ?d = "d\<lparr>attrs := (attrs d)(k \<mapsto> v)\<rparr>"
    have "snd (set_all (a # as) d) = snd (set_all as ?d)"
      using None by (simp add: a d_Set_def)
    also have "\<dots> = ?d\<lparr>attrs := store_all (accepted (setWriter ?d) as) (attrs ?d)\<rparr>"
      by (rule Cons.IH)
    also have "\<dots> = d\<lparr>attrs := store_all (accepted (setWriter d) (a # as)) (attrs d)\<rparr>"
      using None by (simp add: a)
    finally show ?thesis .
  next
    case (Some msg)
    then show ?thesis by (simp add: a d_Set_def)
  qed
qed

lemma set_all_fst:
  "fst (set_all as d) = map_option SetError (first_rejected (setWriter d) as)"
proof (induction as arbitrary: d)
  case Nil
  show ?case by simp
next
  case (Cons a as)
  obtain k v where a: "a = (k, v)" by (cases a)
  show ?case
  proof (cases "setWriter d k v")
    case None
    then show ?thesis by (simp add: a d_Set_def Cons.IH)
  next
    case (Some msg)
    then show ?thesis by (simp add: a d_Set_def)
  qed
qed

lemma read_one:
  assumes "Execute meta (build_request d) = Inr resp" and "GetData resp = [slo]"
  shows "dataSourceServiceLevelObjectiveRead d meta =
           check (set_all (assignments slo) d) (\<lambda>d. (None, d_SetId d (GetId slo)))"
  using assms
  by (simp add: dataSourceServiceLevelObjectiveRead_def set_outputs_set_all)

lemma accepted_all: "first_rejected w as = None \<Longrightarrow> accepted w as = as"
  by (induction w as rule: accepted.induct) (auto split: option.splits)

lemma accepted_take:
  "i < length as \<Longrightarrow> list_all (\<lambda>(k, v). w k v = None) (take i as) \<Longrightarrow>
     w (fst (as ! i)) (snd (as ! i)) = Some msg \<Longrightarrow>
     accepted w as = take i as \<and> first_rejected w as = Some msg"
proof (induction w as arbitrary: i rule: accepted.induct)
  case (1 w)
  then show ?case by simp
next
  case (2 w k v rest)
  show ?case
  proof (cases i)
    case 0
    with "2.prems" show ?thesis by simp
  next
    case (Suc j)
    with "2.prems" have acc: "w k v = None" and j: "j < length rest"
      and pre: "list_all (\<lambda>(k, v). w k v = None) (take j rest)"
      and rej: "w (fst (rest ! j)) (snd (rest ! j)) = Some msg"
      by simp_all
    from "2.IH" [OF acc j pre rej] acc Suc show ?thesis by simp
  qed
qed

lemma accepted_prefix: "\<exists>n. accepted w as = take n as"
proof (induction w as rule: accepted.induct)
  case (1 w)
  show ?case by simp
next
  case (2 w k v rest)
  show ?case
  proof (cases "w k v")
    case None
    with 2 obtain n where "accepted w rest = take n rest" by blast
    with None have "accepted w ((k, v) # rest) = take (Suc n) ((k, v) # rest)" by simp
    then show ?thesis by blast
  next
    case (Some msg)
    then have "accepted w ((k, v) # rest) = take 0 ((k, v) # rest)" by simp
    then show ?thesis by blast
  qed
qed

lemma accepted_subset: "set (accepted w as) \<subseteq> set as"
proof -
  obtain n where "accepted w as = take n as" using accepted_prefix by blast
  then show ?thesis by (simp add: set_take_subset)
qed

lemma store_all_other: "k \<notin> fst ` set as \<Longrightarrow> store_all as m k = m k"
  by (induction as m rule: store_all.induct) auto

lemma read_one_result:
  assumes "Execute meta (build_request d) = Inr resp" and "GetData resp = [slo]"
  shows "dataSourceServiceLevelObjectiveRead d meta =
           (case first_rejected (setWriter d) (assignments slo) of
              None \<Rightarrow>
                (None, d\<lparr>attrs := store_all (assignments slo) (attrs d), ident := GetId slo\<rparr>)
            | Some msg \<Rightarrow>
                (Some (SetError msg),
                 d\<lparr>attrs := store_all (accepted (setWriter d) (assignments slo)) (attrs d)\<rparr>))"
proof -
  let ?r = "set_all (assignments slo) d"
  have r: "?r = (fst ?r, snd ?r)" by simp
  have "dataSourceServiceLevelObjectiveRead d meta =
          check (fst ?r, snd ?r) (\<lambda>d. (None, d_SetId d (GetId slo)))"
    using read_one [OF assms] by simp
  then show ?thesis
    by (cases "first_rejected (setWriter d) (assignments slo)")
       (simp_all add: set_all_fst set_all_snd accepted_all d_SetId_def)
qed

lemma read_unchanged_key:
  assumes "Execute meta (build_request d) = Inr resp" and "GetData resp = [slo]"
    and "k \<notin> fst ` set (assignments slo)"
  shows "attrs (snd (dataSourceServiceLevelObjectiveRead d meta)) k = attrs d k"
proof -
  have "k \<notin> fst ` set (accepted (setWriter d) (assignments slo))"
    using assms(3) accepted_subset [of "setWriter d" "assignments slo"] by blast
  with assms(3) show ?thesis
    unfolding read_one_result [OF assms(1,2)]
    by (simp add: store_all_other split: option.splits)
qed

lemma read_success:
  assumes "Execute meta (build_request d) = Inr resp" and "GetData resp = [slo]"
    and "fst (dataSourceServiceLevelObjectiveRead d meta) = None"
  shows "snd (dataSourceServiceLevelObjectiveRead d meta) =
           d\<lparr>attrs := store_all (assignments slo) (attrs d), ident := GetId slo\<rparr>"
  using assms(3) unfolding read_one_result [OF assms(1,2)]
  by (simp split: option.splits)

lemma assignments_keys:
  "fst ` set (assignments slo) \<subseteq>
     {''name'', ''description'', ''type'', ''tags'', ''thresholds'', ''monitor_ids'', ''groups'', ''query''}"
  by (auto simp: assignments_def)

lemma read_success_store:
  assumes "Execute meta (build_request d) = Inr resp" and "GetData resp = [slo]"
    and "dataSourceServiceLevelObjectiveRead d meta = (None, d')"
  shows "attrs d' = store_all (assignments slo) (attrs d)" and "ident d' = GetId slo"
  using read_success [OF assms(1,2)] assms(3) by simp_all

lemma first_rejected_accepting: "(\<And>k v. w k v = None) \<Longrightarrow> first_rejected w as = None"
  by (induction w as rule: first_rejected.induct) simp_all

lemma read_accepting:
  assumes "Execute meta (build_request d) = Inr resp" and "GetData resp = [slo]"
    and "\<And>k v. setWriter d k v = None"
  shows "dataSourceServiceLevelObjectiveRead d meta =
           (None, snd (dataSourceServiceLevelObjectiveRead d meta))"
  unfolding read_one_result [OF assms(1,2)]
  by (simp add: first_rejected_accepting [of "setWriter d", OF assms(3)])

lemma example_accepts: "setWriter example_store k v = None"
  by (simp add: example_store_def)

lemma example_answer:
  "Execute (example_client slos) (build_request d) = Inr \<lparr>resp_data = Some slos\<rparr>"
  "GetData \<lparr>resp_data = Some slos\<rparr> = slos"
  by (simp_all add: example_client_def GetData_def)

lemma threshold_map_required:
  "threshold_map th ''timeframe'' = Some (IString (GetTimeframe th))"
  "threshold_map th ''target'' = Some (IFloat64 (GetTarget th))"
  by (simp_all add: threshold_map_def GetWarningOk_def GetTargetDisplayOk_def
        GetWarningDisplayOk_def split: option.splits)

lemma threshold_map_optional:
  "threshold_map th ''warning'' = map_option (\<lambda>w. IFloat64Ptr (Some w)) (th_warning th)"
  "threshold_map th ''target_display'' =
     map_option (\<lambda>s. IStringPtr (Some s)) (th_target_display th)"
  "threshold_map th ''warning_display'' =
     map_option (\<lambda>s. IStringPtr (Some s)) (th_warning_display th)"
  by (simp_all add: threshold_map_def GetWarningOk_def GetTargetDisplayOk_def
        GetWarningDisplayOk_def split: option.splits)

lemma threshold_map_dom:
  "dom (threshold_map th) \<subseteq>
     {''timeframe'', ''target'', ''warning'', ''target_display'', ''warning_display''}"
  by (auto simp: threshold_map_def GetWarningOk_def GetTargetDisplayOk_def
        GetWarningDisplayOk_def split: option.splits if_splits)

subsection \<open>The number of results\<close>

text \<open>
  C1: when the list call answers, the read returns the error asking for a more specific
  search if there is more than one SLO, the error asking for a less specific search if
  there is none, and goes on to the assignments only with exactly one; a read that returns
  no error had an answer with exactly one SLO.
\<close>

theorem read_requires_exactly_one:
  "(Execute meta (build_request d) = Inr resp \<longrightarrow>
      (length (GetData resp) > 1 \<longrightarrow>
         fst (dataSourceServiceLevelObjectiveRead d meta) =
           Some (Errorf ''your query returned more than one result, please try a more specific search criteria'')) \<and>
      (length (GetData resp) = 0 \<longrightarrow>
         fst (dataSourceServiceLevelObjectiveRead d meta) =
           Some (Errorf ''your query returned no result, please try a less specific search criteria'')) \<and>
      (length (GetData resp) = 1 \<longrightarrow>
         dataSourceServiceLevelObjectiveRead d meta =
           set_outputs (GetData resp ! 0)
             (thresholds_loop [] (GetThresholds (GetData resp ! 0)))
             (tags_loop [] (GetTags (GetData resp ! 0))) d)) \<and>
   (fst (dataSourceServiceLevelObjectiveRead d meta) = None \<longrightarrow>
      (\<exists>resp. Execute meta (build_request d) = Inr resp \<and> length (GetData resp) = 1))"
proof (cases "Execute meta (build_request d)")
  case (Inl err)
  then show ?thesis
    by (simp add: dataSourceServiceLevelObjectiveRead_def)
next
  case (Inr r)
  consider "length (GetData r) = 0" | "length (GetData r) = 1" | "length (GetData r) > 1"
    by linarith
  then show ?thesis
  proof cases
    case 1
    with Inr show ?thesis by (auto simp: dataSourceServiceLevelObjectiveRead_def)
  next
    case 2
    with Inr show ?thesis by (auto simp: dataSourceServiceLevelObjectiveRead_def Let_def)
  next
    case 3
    with Inr show ?thesis by (auto simp: dataSourceServiceLevelObjectiveRead_def)
  qed
qed

theorem read_requires_exactly_one_witness:
  "fst (dataSourceServiceLevelObjectiveRead example_store (example_client [])) =
     Some (Errorf ''your query returned no result, please try a less specific search criteria'') \<and>
   fst (dataSourceServiceLevelObjectiveRead example_store
          (example_client [example_monitor_slo, example_metric_slo])) =
     Some (Errorf ''your query returned more than one result, please try a more specific search criteria'') \<and>
   fst (dataSourceServiceLevelObjectiveRead example_store (example_client [example_monitor_slo])) = None \<and>
   (\<exists>resp. Execute (example_client [example_monitor_slo]) (build_request example_store) = Inr resp \<and>
      length (GetData resp) = 1)"
proof -
  have e: "Execute (example_client slos) (build_request example_store) = Inr \<lparr>resp_data = Some slos\<rparr>"
    for slos by (simp add: example_client_def)
  have zero: "fst (dataSourceServiceLevelObjectiveRead example_store (example_client [])) =
     Some (Errorf ''your query returned no result, please try a less specific search criteria'')"
    using read_requires_exactly_one [where meta = "example_client []" and d = example_store
        and resp = "\<lparr>resp_data = Some []\<rparr>"]
    by (simp add: e GetData_def)
  have two: "fst (dataSourceServiceLevelObjectiveRead example_store
          (example_client [example_monitor_slo, example_metric_slo])) =
     Some (Errorf ''your query returned more than one result, please try a more specific search criteria'')"
    using read_requires_exactly_one [where meta = "example_client [example_monitor_slo, example_metric_slo]"
        and d = example_store and resp = "\<lparr>resp_data = Some [example_monitor_slo, example_metric_slo]\<rparr>"]
    by (simp add: e GetData_def)
  have one: "dataSourceServiceLevelObjectiveRead example_store (example_client [example_monitor_slo]) =
     set_outputs example_monitor_slo
       (thresholds_loop [] (GetThresholds example_monitor_slo))
       (tags_loop [] (GetTags example_monitor_slo)) example_store"
    using read_requires_exactly_one [where meta = "example_client [example_monitor_slo]"
        and d = example_store and resp = "\<lparr>resp_data = Some [example_monitor_slo]\<rparr>"]
    by (simp add: e GetData_def)
  have ok: "fst (dataSourceServiceLevelObjectiveRead example_store (example_client [example_monitor_slo])) = None"
    unfolding one
    by (simp add: set_outputs_def d_Set_def example_store_def)
  from read_requires_exactly_one [where d = example_store
        and meta = "example_client [example_monitor_slo]"] ok
  have "\<exists>resp. Execute (example_client [example_monitor_slo]) (build_request example_store) = Inr resp \<and>
      length (GetData resp) = 1"
    by blast
  with zero two ok show ?thesis by blast
qed

text \<open>
  C5: with no result or with more than one result the read returns the corresponding
  error, and the store it returns is the store it was given: no attribute and no
  identifier is written.
\<close>

theorem count_error_leaves_store:
  assumes "Execute meta (build_request d) = Inr resp"
  shows "(length (GetData resp) = 0 \<longrightarrow>
            dataSourceServiceLevelObjectiveRead d meta =
              (Some (Errorf ''your query returned no result, please try a less specific search criteria''), d)) \<and>
         (length (GetData resp) > 1 \<longrightarrow>
            dataSourceServiceLevelObjectiveRead d meta =
              (Some (Errorf ''your query returned more than one result, please try a more specific search criteria''), d))"
  using assms by (simp add: dataSourceServiceLevelObjectiveRead_def)

theorem count_error_leaves_store_witness:
  "dataSourceServiceLevelObjectiveRead
     (example_store\<lparr>attrs := [''name'' \<mapsto> VString ''earlier''], ident := ''slo-0''\<rparr>)
     (example_client []) =
     (Some (Errorf ''your query returned no result, please try a less specific search criteria''),
      example_store\<lparr>attrs := [''name'' \<mapsto> VString ''earlier''], ident := ''slo-0''\<rparr>) \<and>
   dataSourceServiceLevelObjectiveRead
     (example_store\<lparr>attrs := [''name'' \<mapsto> VString ''earlier''], ident := ''slo-0''\<rparr>)
     (example_client [example_metric_slo, example_monitor_slo]) =
     (Some (Errorf ''your query returned more than one result, please try a more specific search criteria''),
      example_store\<lparr>attrs := [''name'' \<mapsto> VString ''earlier''], ident := ''slo-0''\<rparr>)"
proof -
  let ?d = "example_store\<lparr>attrs := [''name'' \<mapsto> VString ''earlier''], ident := ''slo-0''\<rparr>"
  have e: "Execute (example_client slos) (build_request ?d) = Inr \<lparr>resp_data = Some slos\<rparr>"
    for slos by (simp add: example_client_def)
  show ?thesis
    using count_error_leaves_store [OF e [of "[]"]]
      count_error_leaves_store [OF e [of "[example_metric_slo, example_monitor_slo]"]]
    by (simp add: GetData_def)
qed

subsection \<open>The outputs of a successful read\<close>

text \<open>
  C2 (as amended): when the list call answers with exactly one SLO and no assignment is
  rejected, the read writes name, description, type, tags and thresholds, then for a
  monitor SLO groups (and monitor_ids when the SLO has at least one monitor) and for any
  other SLO query; it leaves force_delete and validate as they were; and the identifier is
  the identifier of the SLO.
\<close>

theorem read_populates_outputs:
  assumes "Execute meta (build_request d) = Inr resp" and "GetData resp = [slo]"
    and "dataSourceServiceLevelObjectiveRead d meta = (None, d')"
  shows "attrs d' ''name'' = Some (VString (GetName slo)) \<and>
         attrs d' ''description'' = Some (VString (GetDescription slo)) \<and>
         attrs d' ''type'' = Some (VString (GetType slo)) \<and>
         attrs d' ''tags'' = Some (VStrings (GetTags slo)) \<and>
         attrs d' ''thresholds'' = Some (VMaps (map threshold_map (GetThresholds slo))) \<and>
         (if GetType slo = SLOTYPE_MONITOR
          then attrs d' ''groups'' = Some (VStrings (GetGroups slo)) \<and>
               attrs d' ''monitor_ids'' =
                 (if GetMonitorIds slo = [] then attrs d ''monitor_ids''
                  else Some (VInt64s (GetMonitorIds slo)))
          else attrs d' ''query'' = Some (VMaps [query_map slo])) \<and>
         attrs d' ''force_delete'' = attrs d ''force_delete'' \<and>
         attrs d' ''validate'' = attrs d ''validate'' \<and>
         ident d' = GetId slo"
  unfolding read_success_store [OF assms]
  by (simp add: assignments_def thresholds_loop_append tags_loop_append)

theorem read_populates_outputs_witness:
  "dataSourceServiceLevelObjectiveRead example_store (example_client [example_monitor_slo]) =
     (None,
      example_store
        \<lparr>attrs := [''name'' \<mapsto> VString ''checkout latency'',
                   ''description'' \<mapsto> VString ''latency of the checkout'',
                   ''type'' \<mapsto> VString ''monitor'',
                   ''tags'' \<mapsto> VStrings [''team:shop''],
                   ''thresholds'' \<mapsto> VMaps [threshold_map example_threshold],
                   ''monitor_ids'' \<mapsto> VInt64s [123, 456],
                   ''groups'' \<mapsto> VStrings [''env:prod'']],
         ident := ''slo-1''\<rparr>) \<and>
   attrs (snd (dataSourceServiceLevelObjectiveRead example_store (example_client [example_monitor_slo])))
     ''groups'' = Some (VStrings [''env:prod'']) \<and>
   ident (snd (dataSourceServiceLevelObjectiveRead example_store (example_client [example_monitor_slo])))
     = ''slo-1''"
proof -
  let ?meta = "example_client [example_monitor_slo]"
  let ?resp = "\<lparr>resp_data = Some [example_monitor_slo]\<rparr>"
  have e: "Execute ?meta (build_request example_store) = Inr ?resp"
    by (simp add: example_client_def)
  have g: "GetData ?resp = [example_monitor_slo]"
    by (simp add: GetData_def)
  have r: "dataSourceServiceLevelObjectiveRead example_store ?meta =
     (None,
      example_store
        \<lparr>attrs := [''name'' \<mapsto> VString ''checkout latency'',
                   ''description'' \<mapsto> VString ''latency of the checkout'',
                   ''type'' \<mapsto> VString ''monitor'',
                   ''tags'' \<mapsto> VStrings [''team:shop''],
                   ''thresholds'' \<mapsto> VMaps [threshold_map example_threshold],
                   ''monitor_ids'' \<mapsto> VInt64s [123, 456],
                   ''groups'' \<mapsto> VStrings [''env:prod'']],
         ident := ''slo-1''\<rparr>)"
    unfolding read_one_result [OF e g]
    by (simp add: assignments_def thresholds_loop_append tags_loop_append example_store_def
          example_monitor_slo_def GetName_def GetDescription_def GetType_def GetTags_def
          GetThresholds_def GetMonitorIds_def GetGroups_def GetId_def SLOTYPE_MONITOR_def)
  from read_populates_outputs [OF e g r] r show ?thesis
    by (simp add: example_monitor_slo_def GetGroups_def GetId_def GetType_def SLOTYPE_MONITOR_def)
qed

text \<open>
  The schema declares force_delete and validate as computed, and no statement of the read
  writes them: after a read of the example that returns no error both are still unset.
\<close>

theorem computed_fields_left_unset:
  "fst (dataSourceServiceLevelObjectiveRead example_store (example_client [example_monitor_slo])) = None \<and>
   ''force_delete'' \<in> set computed_fields \<and>
   attrs (snd (dataSourceServiceLevelObjectiveRead example_store (example_client [example_monitor_slo])))
     ''force_delete'' = None \<and>
   ''validate'' \<in> set computed_fields \<and>
   attrs (snd (dataSourceServiceLevelObjectiveRead example_store (example_client [example_monitor_slo])))
     ''validate'' = None"
proof -
  let ?meta = "example_client [example_monitor_slo]"
  let ?resp = "\<lparr>resp_data = Some [example_monitor_slo]\<rparr>"
  have e: "Execute ?meta (build_request example_store) = Inr ?resp"
    by (simp add: example_client_def)
  have g: "GetData ?resp = [example_monitor_slo]"
    by (simp add: GetData_def)
  have w: "first_rejected (setWriter example_store) as = None" for as
    by (induction as) (auto simp: example_store_def)
  have ok: "fst (dataSourceServiceLevelObjectiveRead example_store ?meta) = None"
    unfolding read_one_result [OF e g] by (simp add: w)
  have k: "''force_delete'' \<notin> fst ` set (assignments example_monitor_slo)"
    "''validate'' \<notin> fst ` set (assignments example_monitor_slo)"
    using assignments_keys [of example_monitor_slo] by auto
  have c: "''force_delete'' \<in> set computed_fields" "''validate'' \<in> set computed_fields"
    by (simp_all add: computed_fields_def dataSourceDatadogServiceLevelObjective_def)
  have "attrs example_store ''force_delete'' = None" "attrs example_store ''validate'' = None"
    by (simp_all add: example_store_def)
  with ok c read_unchanged_key [OF e g k(1)] read_unchanged_key [OF e g k(2)]
  show ?thesis by simp
qed

text \<open>
  C3: for a monitor SLO the read never writes query, and a read that returns no error has
  written groups (also when the SLO has none) and has written monitor_ids exactly when
  the SLO has at least one monitor; for any other type the read never writes monitor_ids
  or groups, and a read that returns no error has written query as a list of one map with
  the numerator and the denominator of the SLO's query.
\<close>

theorem type_branch_outputs:
  assumes "Execute meta (build_request d) = Inr resp" and "GetData resp = [slo]"
    and "dataSourceServiceLevelObjectiveRead d meta = (e, d')"
  shows "(GetType slo = SLOTYPE_MONITOR \<longrightarrow>
            attrs d' ''query'' = attrs d ''query'' \<and>
            (e = None \<longrightarrow>
               attrs d' ''groups'' = Some (VStrings (GetGroups slo)) \<and>
               attrs d' ''monitor_ids'' =
                 (if length (GetMonitorIds slo) > 0 then Some (VInt64s (GetMonitorIds slo))
                  else attrs d ''monitor_ids''))) \<and>
         (GetType slo \<noteq> SLOTYPE_MONITOR \<longrightarrow>
            attrs d' ''monitor_ids'' = attrs d ''monitor_ids'' \<and>
            attrs d' ''groups'' = attrs d ''groups'' \<and>
            (e = None \<longrightarrow>
               attrs d' ''query'' =
                 Some (VMaps [[''numerator'' \<mapsto> IString (GetNumerator (GetQuery slo)),
                               ''denominator'' \<mapsto> IString (GetDenominator (GetQuery slo))]])))"
proof -
  have d': "d' = snd (dataSourceServiceLevelObjectiveRead d meta)"
    using assms(3) by simp
  have unchanged: "k \<notin> fst ` set (assignments slo) \<Longrightarrow> attrs d' k = attrs d k" for k
    unfolding d' by (rule read_unchanged_key [OF assms(1,2)])
  have written: "e = None \<Longrightarrow> attrs d' = store_all (assignments slo) (attrs d)"
    using read_success_store(1) [OF assms(1,2)] assms(3) by simp
  show ?thesis
  proof (cases "GetType slo = SLOTYPE_MONITOR")
    case True
    then have "''query'' \<notin> fst ` set (assignments slo)"
      by (auto simp: assignments_def)
    with True unchanged written show ?thesis
      by (simp add: assignments_def)
  next
    case False
    then have "''monitor_ids'' \<notin> fst ` set (assignments slo)"
      and "''groups'' \<notin> fst ` set (assignments slo)"
      by (auto simp: assignments_def)
    with False unchanged written show ?thesis
      by (simp add: assignments_def query_map_def Let_def)
  qed
qed

theorem type_branch_outputs_witness:
  "attrs (snd (dataSourceServiceLevelObjectiveRead example_store (example_client [example_monitor_slo])))
     ''query'' = None \<and>
   attrs (snd (dataSourceServiceLevelObjectiveRead example_store (example_client [example_monitor_slo])))
     ''groups'' = Some (VStrings [''env:prod'']) \<and>
   attrs (snd (dataSourceServiceLevelObjectiveRead example_store (example_client [example_monitor_slo])))
     ''monitor_ids'' = Some (VInt64s [123, 456]) \<and>
   attrs (snd (dataSourceServiceLevelObjectiveRead example_store
     (example_client [example_monitor_slo\<lparr>slo_groups := None, slo_monitor_ids := None\<rparr>])))
     ''groups'' = Some (VStrings []) \<and>
   attrs (snd (dataSourceServiceLevelObjectiveRead example_store
     (example_client [example_monitor_slo\<lparr>slo_groups := None, slo_monitor_ids := None\<rparr>])))
     ''monitor_ids'' = None \<and>
   attrs (snd (dataSourceServiceLevelObjectiveRead example_store (example_client [example_metric_slo])))
     ''query'' = Some (VMaps [[''numerator'' \<mapsto> IString ''sum:requests.ok'',
                               ''denominator'' \<mapsto> IString ''sum:requests.total'']]) \<and>
   attrs (snd (dataSourceServiceLevelObjectiveRead example_store (example_client [example_metric_slo])))
     ''monitor_ids'' = None \<and>
   attrs (snd (dataSourceServiceLevelObjectiveRead example_store (example_client [example_metric_slo])))
     ''groups'' = None"
proof -
  let ?bare = "example_monitor_slo\<lparr>slo_groups := None, slo_monitor_ids := None\<rparr>"
  note run = read_accepting [OF example_answer example_accepts]
  have empty: "attrs example_store k = None" for k
    by (simp add: example_store_def)
  have monitor: "GetType example_monitor_slo = SLOTYPE_MONITOR" "GetType ?bare = SLOTYPE_MONITOR"
    and metric: "GetType example_metric_slo \<noteq> SLOTYPE_MONITOR"
    by (simp_all add: GetType_def SLOTYPE_MONITOR_def example_monitor_slo_def example_metric_slo_def)
  from type_branch_outputs [OF example_answer run, of example_monitor_slo] monitor(1)
  have a: "attrs (snd (dataSourceServiceLevelObjectiveRead example_store (example_client [example_monitor_slo])))
     ''query'' = None"
    "attrs (snd (dataSourceServiceLevelObjectiveRead example_store (example_client [example_monitor_slo])))
     ''groups'' = Some (VStrings [''env:prod''])"
    "attrs (snd (dataSourceServiceLevelObjectiveRead example_store (example_client [example_monitor_slo])))
     ''monitor_ids'' = Some (VInt64s [123, 456])"
    by (simp_all add: empty example_monitor_slo_def GetGroups_def GetMonitorIds_def)
  from type_branch_outputs [OF example_answer run, of ?bare] monitor(2)
  have b: "attrs (snd (dataSourceServiceLevelObjectiveRead example_store (example_client [?bare])))
     ''groups'' = Some (VStrings [])"
    "attrs (snd (dataSourceServiceLevelObjectiveRead example_store (example_client [?bare])))
     ''monitor_ids'' = None"
    by (simp_all add: empty example_monitor_slo_def GetGroups_def GetMonitorIds_def)
  from type_branch_outputs [OF example_answer run, of example_metric_slo] metric
  have c: "attrs (snd (dataSourceServiceLevelObjectiveRead example_store (example_client [example_metric_slo])))
     ''query'' = Some (VMaps [[''numerator'' \<mapsto> IString ''sum:requests.ok'',
                               ''denominator'' \<mapsto> IString ''sum:requests.total'']])"
    "attrs (snd (dataSourceServiceLevelObjectiveRead example_store (example_client [example_metric_slo])))
     ''monitor_ids'' = None"
    "attrs (snd (dataSourceServiceLevelObjectiveRead example_store (example_client [example_metric_slo])))
     ''groups'' = None"
    by (simp_all add: empty example_metric_slo_def GetQuery_def GetNumerator_def GetDenominator_def)
  from a b c show ?thesis by simp
qed

text \<open>
  C4: in the output of a read that returns no error, thresholds is a list with one map for
  each threshold of the SLO, in the same order; each map has the timeframe and the target
  of its threshold, has warning, target_display and warning_display exactly when the
  threshold carries the field (a warning that is present and zero is written), and has no
  other key.
\<close>

theorem thresholds_output:
  assumes "Execute meta (build_request d) = Inr resp" and "GetData resp = [slo]"
    and "dataSourceServiceLevelObjectiveRead d meta = (None, d')"
  shows "\<exists>ms. attrs d' ''thresholds'' = Some (VMaps ms) \<and>
           length ms = length (GetThresholds slo) \<and>
           (\<forall>i<length ms.
              (ms ! i) ''timeframe'' = Some (IString (GetTimeframe (GetThresholds slo ! i))) \<and>
              (ms ! i) ''target'' = Some (IFloat64 (GetTarget (GetThresholds slo ! i))) \<and>
              (ms ! i) ''warning'' =
                 map_option (\<lambda>w. IFloat64Ptr (Some w)) (th_warning (GetThresholds slo ! i)) \<and>
              (ms ! i) ''target_display'' =
                 map_option (\<lambda>s. IStringPtr (Some s)) (th_target_display (GetThresholds slo ! i)) \<and>
              (ms ! i) ''warning_display'' =
                 map_option (\<lambda>s. IStringPtr (Some s)) (th_warning_display (GetThresholds slo ! i)) \<and>
              dom (ms ! i) \<subseteq>
                 {''timeframe'', ''target'', ''warning'', ''target_display'', ''warning_display''})"
proof -
  let ?ms = "map threshold_map (GetThresholds slo)"
  have "attrs d' ''thresholds'' = Some (VMaps ?ms)"
    unfolding read_success_store(1) [OF assms]
    by (simp add: assignments_def thresholds_loop_append)
  moreover have "length ?ms = length (GetThresholds slo)"
    by simp
  moreover have "\<forall>i<length ?ms.
              (?ms ! i) ''timeframe'' = Some (IString (GetTimeframe (GetThresholds slo ! i))) \<and>
              (?ms ! i) ''target'' = Some (IFloat64 (GetTarget (GetThresholds slo ! i))) \<and>
              (?ms ! i) ''warning'' =
                 map_option (\<lambda>w. IFloat64Ptr (Some w)) (th_warning (GetThresholds slo ! i)) \<and>
              (?ms ! i) ''target_display'' =
                 map_option (\<lambda>s. IStringPtr (Some s)) (th_target_display (GetThresholds slo ! i)) \<and>
              (?ms ! i) ''warning_display'' =
                 map_option (\<lambda>s. IStringPtr (Some s)) (th_warning_display (GetThresholds slo ! i)) \<and>
              dom (?ms ! i) \<subseteq>
                 {''timeframe'', ''target'', ''warning'', ''target_display'', ''warning_display''}"
    using threshold_map_dom
    by (simp add: threshold_map_required threshold_map_optional)
  ultimately show ?thesis by blast
qed

theorem thresholds_output_witness:
  "\<exists>ms. attrs (snd (dataSourceServiceLevelObjectiveRead example_store
                      (example_client [example_metric_slo]))) ''thresholds'' = Some (VMaps ms) \<and>
     length ms = 2 \<and>
     (ms ! 0) ''timeframe'' = Some (IString ''30d'') \<and>
     (ms ! 0) ''target'' = Some (IFloat64 0x4058C00000000000) \<and>
     (ms ! 0) ''warning'' = Some (IFloat64Ptr (Some 0)) \<and>
     (ms ! 0) ''target_display'' = Some (IStringPtr (Some ''99.00'')) \<and>
     (ms ! 0) ''warning_display'' = None \<and>
     (ms ! 1) ''timeframe'' = Some (IString ''7d'') \<and>
     (ms ! 1) ''target'' = Some (IFloat64 0x4058F9999999999A) \<and>
     (ms ! 1) ''warning'' = None \<and>
     (ms ! 1) ''target_display'' = None \<and>
     (ms ! 1) ''warning_display'' = None"
proof -
  note run = read_accepting [OF example_answer example_accepts]
  have ths: "GetThresholds example_metric_slo =
    [\<lparr>th_target = 0x4058C00000000000, th_target_display = Some ''99.00'',
      th_timeframe = ''30d'', th_warning = Some 0, th_warning_display = None\<rparr>,
     \<lparr>th_target = 0x4058F9999999999A, th_target_display = None, th_timeframe = ''7d'',
      th_warning = None, th_warning_display = None\<rparr>]"
    by (simp add: GetThresholds_def example_metric_slo_def example_threshold_def)
  from thresholds_output [OF example_answer run, of example_metric_slo]
  obtain ms where out: "attrs (snd (dataSourceServiceLevelObjectiveRead example_store
                      (example_client [example_metric_slo]))) ''thresholds'' = Some (VMaps ms)"
    and len: "length ms = 2"
    and each: "\<forall>i<length ms.
              (ms ! i) ''timeframe'' = Some (IString (GetTimeframe (GetThresholds example_metric_slo ! i))) \<and>
              (ms ! i) ''target'' = Some (IFloat64 (GetTarget (GetThresholds example_metric_slo ! i))) \<and>
              (ms ! i) ''warning'' =
                 map_option (\<lambda>w. IFloat64Ptr (Some w)) (th_warning (GetThresholds example_metric_slo ! i)) \<and>
              (ms ! i) ''target_display'' =
                 map_option (\<lambda>s. IStringPtr (Some s)) (th_target_display (GetThresholds example_metric_slo ! i)) \<and>
              (ms ! i) ''warning_display'' =
                 map_option (\<lambda>s. IStringPtr (Some s)) (th_warning_display (GetThresholds example_metric_slo ! i)) \<and>
              dom (ms ! i) \<subseteq>
                 {''timeframe'', ''target'', ''warning'', ''target_display'', ''warning_display''}"
    unfolding ths by auto
  from each len have "0 < length ms" and "1 < length ms" by simp_all
  with each have
    "(ms ! 0) ''timeframe'' = Some (IString ''30d'') \<and>
     (ms ! 0) ''target'' = Some (IFloat64 0x4058C00000000000) \<and>
     (ms ! 0) ''warning'' = Some (IFloat64Ptr (Some 0)) \<and>
     (ms ! 0) ''target_display'' = Some (IStringPtr (Some ''99.00'')) \<and>
     (ms ! 0) ''warning_display'' = None"
    "(ms ! 1) ''timeframe'' = Some (IString ''7d'') \<and>
     (ms ! 1) ''target'' = Some (IFloat64 0x4058F9999999999A) \<and>
     (ms ! 1) ''warning'' = None \<and>
     (ms ! 1) ''target_display'' = None \<and>
     (ms ! 1) ''warning_display'' = None"
    unfolding ths by (simp_all add: GetTimeframe_def GetTarget_def)
  with out len show ?thesis by blast
qed

text \<open>
  C10: for an SLO whose type is not monitor, a read that returns no error has written
  query as a list of one map with exactly the keys numerator and denominator, whatever the
  SLO carries: when the SLO has no query object both are the empty string.
\<close>

theorem metric_query_unconditional:
  assumes "Execute meta (build_request d) = Inr resp" and "GetData resp = [slo]"
    and "GetType slo \<noteq> SLOTYPE_MONITOR"
    and "dataSourceServiceLevelObjectiveRead d meta = (None, d')"
  shows "\<exists>m. attrs d' ''query'' = Some (VMaps [m]) \<and>
           dom m = {''numerator'', ''denominator''} \<and>
           m ''numerator'' =
             Some (IString (case slo_query slo of None \<Rightarrow> [] | Some q \<Rightarrow> q_numerator q)) \<and>
           m ''denominator'' =
             Some (IString (case slo_query slo of None \<Rightarrow> [] | Some q \<Rightarrow> q_denominator q))"
proof -
  have "attrs d' ''query'' = Some (VMaps [query_map slo])"
    unfolding read_success_store(1) [OF assms(1,2,4)]
    using assms(3) by (simp add: assignments_def)
  moreover have "dom (query_map slo) = {''numerator'', ''denominator''}"
    by (auto simp: query_map_def Let_def split: if_splits)
  moreover have "query_map slo ''numerator'' =
      Some (IString (case slo_query slo of None \<Rightarrow> [] | Some q \<Rightarrow> q_numerator q))"
    and "query_map slo ''denominator'' =
      Some (IString (case slo_query slo of None \<Rightarrow> [] | Some q \<Rightarrow> q_denominator q))"
    by (simp_all add: query_map_def Let_def GetQuery_def GetNumerator_def GetDenominator_def
          split: option.splits)
  ultimately show ?thesis by blast
qed

theorem metric_query_unconditional_witness:
  "\<exists>m. attrs (snd (dataSourceServiceLevelObjectiveRead example_store
                     (example_client [example_metric_slo\<lparr>slo_query := None\<rparr>]))) ''query'' =
          Some (VMaps [m]) \<and>
     dom m = {''numerator'', ''denominator''} \<and>
     m ''numerator'' = Some (IString []) \<and>
     m ''denominator'' = Some (IString [])"
proof -
  let ?slo = "example_metric_slo\<lparr>slo_query := None\<rparr>"
  note run = read_accepting [OF example_answer example_accepts]
  have metric: "GetType ?slo \<noteq> SLOTYPE_MONITOR"
    by (simp add: GetType_def SLOTYPE_MONITOR_def example_metric_slo_def)
  from metric_query_unconditional [OF example_answer metric run] show ?thesis
    by simp
qed

subsection \<open>The request and the errors\<close>

text \<open>
  C6: the request carries each of the three filters exactly when \<^verbatim>\<open>GetOk\<close> reports it,
  each parameter of the request depends on its own key only, every combination of
  present and absent filters gives the request with exactly those parameters, and the
  read consults the client through this one request.
\<close>

theorem filters_attached_independently:
  "build_request d =
     \<lparr>req_query = config d ''name_query'',
      req_tagsQuery = config d ''tags_filter'',
      req_metricsQuery = config d ''metrics_query''\<rparr> \<and>
   (req_query (build_request d) = Some v) = (d_GetOk d ''name_query'' = (v, True)) \<and>
   (req_tagsQuery (build_request d) = Some v) = (d_GetOk d ''tags_filter'' = (v, True)) \<and>
   (req_metricsQuery (build_request d) = Some v) = (d_GetOk d ''metrics_query'' = (v, True)) \<and>
   build_request
     (d\<lparr>config := (\<lambda>k. if k = ''name_query'' then a else if k = ''tags_filter'' then b
                       else if k = ''metrics_query'' then c else None)\<rparr>) =
     \<lparr>req_query = a, req_tagsQuery = b, req_metricsQuery = c\<rparr> \<and>
   (Execute meta (build_request d) = Execute meta' (build_request d) \<longrightarrow>
      dataSourceServiceLevelObjectiveRead d meta = dataSourceServiceLevelObjectiveRead d meta')"
proof -
  have req: "build_request d' =
     \<lparr>req_query = config d' ''name_query'',
      req_tagsQuery = config d' ''tags_filter'',
      req_metricsQuery = config d' ''metrics_query''\<rparr>" for d'
    by (simp add: build_request_def d_GetOk_def ListSLOs_def Query_def TagsQuery_def
          MetricsQuery_def split: option.splits)
  have ok: "(config d k = Some v) = (d_GetOk d k = (v, True))" for k
    by (simp add: d_GetOk_def split: option.splits)
  have one: "Execute meta (build_request d) = Execute meta' (build_request d) \<longrightarrow>
      dataSourceServiceLevelObjectiveRead d meta = dataSourceServiceLevelObjectiveRead d meta'"
    by (simp add: dataSourceServiceLevelObjectiveRead_def)
  show ?thesis
    using one by (simp add: req ok)
qed

theorem filters_attached_independently_witness:
  "build_request example_store =
     \<lparr>req_query = Some ''checkout latency'', req_tagsQuery = None, req_metricsQuery = None\<rparr> \<and>
   dataSourceServiceLevelObjectiveRead example_store
     \<lparr>Execute = (\<lambda>req. if req_query req = Some ''checkout latency'' then Inl ''403 Forbidden''
                        else Inr \<lparr>resp_data = None\<rparr>)\<rparr> =
   dataSourceServiceLevelObjectiveRead example_store failing_client"
proof -
  let ?m = "\<lparr>Execute = (\<lambda>req. if req_query req = Some ''checkout latency'' then Inl ''403 Forbidden''
                        else Inr \<lparr>resp_data = None\<rparr>)\<rparr>"
  let ?m' = "\<lparr>Execute = (\<lambda>req. Inl ''403 Forbidden'')\<rparr> :: ProviderConfiguration"
  note f = filters_attached_independently [where d = example_store and meta = ?m and meta' = ?m']
  from f have req: "build_request example_store =
     \<lparr>req_query = Some ''checkout latency'', req_tagsQuery = None, req_metricsQuery = None\<rparr>"
    by (simp add: example_store_def)
  have "Execute ?m (build_request example_store) = Execute ?m' (build_request example_store)"
    by (simp add: req)
  with f have "dataSourceServiceLevelObjectiveRead example_store ?m =
    dataSourceServiceLevelObjectiveRead example_store ?m'"
    by blast
  with req show ?thesis by (simp add: failing_client_def)
qed

text \<open>
  C7: when the list call fails, the read returns the translation of that error with the
  context \<^verbatim>\<open>error querying monitors\<close>, which carries the error of the client, and the
  store it returns is the store it was given.
\<close>

theorem client_error_translated:
  assumes "Execute meta (build_request d) = Inl err"
  shows "dataSourceServiceLevelObjectiveRead d meta =
           (Some (TranslateClientError err ''error querying monitors''), d) \<and>
         TranslateClientError err ''error querying monitors'' =
           TranslatedError ''error querying monitors'' err"
  using assms by (simp add: dataSourceServiceLevelObjectiveRead_def TranslateClientError_def)

theorem client_error_translated_witness:
  "Execute failing_client (build_request example_store) = Inl ''403 Forbidden'' \<and>
   dataSourceServiceLevelObjectiveRead example_store failing_client =
     (Some (TranslatedError ''error querying monitors'' ''403 Forbidden''), example_store)"
proof -
  have e: "Execute failing_client (build_request example_store) = Inl ''403 Forbidden''"
    by (simp add: failing_client_def)
  from client_error_translated [OF e] e show ?thesis by simp
qed

text \<open>
  C8: when the store accepts the first \<open>i\<close> assignments and rejects the next one, the
  read returns the error of that assignment, the store holds the first \<open>i\<close> assignments
  and none of the later ones, and the identifier is not written; on every path that
  returns an error the identifier is the one the read was given.
\<close>

theorem set_error_aborts:
  "(Execute meta (build_request d) = Inr resp \<and> GetData resp = [slo] \<and>
    i < length (assignments slo) \<and>
    list_all (\<lambda>(k, v). setWriter d k v = None) (take i (assignments slo)) \<and>
    setWriter d (fst (assignments slo ! i)) (snd (assignments slo ! i)) = Some msg \<longrightarrow>
      dataSourceServiceLevelObjectiveRead d meta =
        (Some (SetError msg), d\<lparr>attrs := store_all (take i (assignments slo)) (attrs d)\<rparr>)) \<and>
   (fst (dataSourceServiceLevelObjectiveRead d meta) \<noteq> None \<longrightarrow>
      ident (snd (dataSourceServiceLevelObjectiveRead d meta)) = ident d)"
proof (intro conjI impI)
  assume a: "Execute meta (build_request d) = Inr resp \<and> GetData resp = [slo] \<and>
    i < length (assignments slo) \<and>
    list_all (\<lambda>(k, v). setWriter d k v = None) (take i (assignments slo)) \<and>
    setWriter d (fst (assignments slo ! i)) (snd (assignments slo ! i)) = Some msg"
  then have "accepted (setWriter d) (assignments slo) = take i (assignments slo) \<and>
    first_rejected (setWriter d) (assignments slo) = Some msg"
    by (intro accepted_take) simp_all
  moreover from a have "Execute meta (build_request d) = Inr resp" and "GetData resp = [slo]"
    by simp_all
  ultimately show "dataSourceServiceLevelObjectiveRead d meta =
        (Some (SetError msg), d\<lparr>attrs := store_all (take i (assignments slo)) (attrs d)\<rparr>)"
    by (simp add: read_one_result)
next
  assume err: "fst (dataSourceServiceLevelObjectiveRead d meta) \<noteq> None"
  show "ident (snd (dataSourceServiceLevelObjectiveRead d meta)) = ident d"
  proof (cases "Execute meta (build_request d)")
    case (Inl e)
    then show ?thesis by (simp add: dataSourceServiceLevelObjectiveRead_def)
  next
    case (Inr r)
    show ?thesis
    proof (cases "GetData r")
      case Nil
      with Inr show ?thesis by (simp add: dataSourceServiceLevelObjectiveRead_def)
    next
      case (Cons slo rest)
      show ?thesis
      proof (cases rest)
        case Nil
        with Cons have one: "GetData r = [slo]" by simp
        from err show ?thesis
          unfolding read_one_result [OF Inr one] by (simp split: option.splits)
      next
        case (Cons slo' rest')
        with Inr \<open>GetData r = slo # rest\<close> show ?thesis
          by (simp add: dataSourceServiceLevelObjectiveRead_def)
      qed
    qed
  qed
qed

theorem set_error_aborts_witness:
  "dataSourceServiceLevelObjectiveRead
     (example_store\<lparr>setWriter := (\<lambda>k v. if k = ''tags'' then Some ''tags: not a set'' else None),
                    ident := ''slo-0''\<rparr>)
     (example_client [example_monitor_slo]) =
     (Some (SetError ''tags: not a set''),
      example_store\<lparr>setWriter := (\<lambda>k v. if k = ''tags'' then Some ''tags: not a set'' else None),
                     ident := ''slo-0'',
                     attrs := [''name'' \<mapsto> VString ''checkout latency'',
                               ''description'' \<mapsto> VString ''latency of the checkout'',
                               ''type'' \<mapsto> VString ''monitor'']\<rparr>)"
proof -
  let ?d = "example_store\<lparr>setWriter := (\<lambda>k v. if k = ''tags'' then Some ''tags: not a set'' else None),
                    ident := ''slo-0''\<rparr>"
  have as: "take 4 (assignments example_monitor_slo) =
    [(''name'', VString ''checkout latency''),
     (''description'', VString ''latency of the checkout''),
     (''type'', VString ''monitor''),
     (''tags'', VStrings [''team:shop''])]"
    by (simp add: assignments_def example_monitor_slo_def GetName_def GetDescription_def
          GetType_def GetTags_def)
  have len: "4 \<le> length (assignments example_monitor_slo)"
    by (simp add: assignments_def)
  have t3: "take 3 (assignments example_monitor_slo) = take 3 (take 4 (assignments example_monitor_slo))"
    by simp
  have n3: "assignments example_monitor_slo ! 3 = take 4 (assignments example_monitor_slo) ! 3"
    by simp
  have h: "Execute (example_client [example_monitor_slo]) (build_request ?d) =
             Inr \<lparr>resp_data = Some [example_monitor_slo]\<rparr> \<and>
           GetData \<lparr>resp_data = Some [example_monitor_slo]\<rparr> = [example_monitor_slo] \<and>
           3 < length (assignments example_monitor_slo) \<and>
           list_all (\<lambda>(k, v). setWriter ?d k v = None) (take 3 (assignments example_monitor_slo)) \<and>
           setWriter ?d (fst (assignments example_monitor_slo ! 3))
             (snd (assignments example_monitor_slo ! 3)) = Some ''tags: not a set''"
    using len unfolding t3 n3 as
    by (simp add: example_client_def GetData_def)
  from set_error_aborts [where d = ?d and i = 3 and slo = example_monitor_slo
      and meta = "example_client [example_monitor_slo]" and msg = "''tags: not a set''"
      and resp = "\<lparr>resp_data = Some [example_monitor_slo]\<rparr>"] h
  have "dataSourceServiceLevelObjectiveRead ?d (example_client [example_monitor_slo]) =
        (Some (SetError ''tags: not a set''),
         ?d\<lparr>attrs := store_all (take 3 (assignments example_monitor_slo)) (attrs ?d)\<rparr>)"
    by blast
  then show ?thesis
    unfolding t3 as by (simp add: example_store_def)
qed

subsection \<open>The retired field\<close>

text \<open>
  C9: the schema declares monitor_search with the removal message
  \<^verbatim>\<open>Feature is not yet supported\<close>, and it is the only key declared so; hence a validation
  of the configuration that refuses every supplied key whose schema carries a removal
  message (the rule of the SDK, which is outside the repository) refuses monitor_search.
\<close>

theorem monitor_search_removed:
  "map_of dataSourceDatadogServiceLevelObjective ''monitor_search'' =
     Some (Schema TypeString False False True ''Feature is not yet supported'' 0 0 NoElem) \<and>
   map fst (filter (\<lambda>(k, s). Removed s \<noteq> []) dataSourceDatadogServiceLevelObjective) =
     [''monitor_search''] \<and>
   ((\<forall>k s. Removed s \<noteq> [] \<longrightarrow> validate k s \<noteq> None) \<longrightarrow>
      (\<exists>s. map_of dataSourceDatadogServiceLevelObjective ''monitor_search'' = Some s \<and>
           validate ''monitor_search'' s \<noteq> None))"
  by (simp add: dataSourceDatadogServiceLevelObjective_def)

theorem monitor_search_removed_witness:
  "\<exists>s. map_of dataSourceDatadogServiceLevelObjective ''monitor_search'' = Some s \<and>
     (if Removed s = [] then None
      else Some (Errorf (''monitor_search'' @ '': [REMOVED] '' @ Removed s))) \<noteq> None"
proof -
  let ?validate = "\<lambda>k s. if Removed s = [] then None
                          else Some (Errorf (k @ '': [REMOVED] '' @ Removed s))"
  have "\<forall>k s. Removed s \<noteq> [] \<longrightarrow> ?validate k s \<noteq> None"
    by simp
  with monitor_search_removed [where validate = ?validate] show ?thesis
    by blast
qed

end
